theory Spec2Isabelle
  imports Main "HOL-Library.Word" "HOL-Library.Sublist"
begin

section \<open>JavaScript values used by the Mailchimp signup component\<close>

text \<open>
  A JavaScript string is a sequence of 16-bit code units.  Source literals are written
  \<open>js ''...''\<close>; every character of such a literal is below 256, and \<open>of_char\<close> gives
  its code unit.
\<close>

type_synonym jsstring = "16 word list"

definition js :: "string \<Rightarrow> jsstring" where
  "js s = map of_char s"

text \<open>The shape of the \<open>value\<close> prop and of the value of a change event: \<open>{ hasSignup: ... }\<close>.\<close>

record 'a signup_value =
  hasSignup :: 'a

text \<open>
  The values that \<open>state.successfulSignup\<close> and the host's recorded \<open>hasSignup\<close> can hold.
  \<open>JObject\<close> is the object passed as the \<open>value\<close> prop (shape \<open>{hasSignup: bool}\<close>).
\<close>

datatype jsval =
    JUndefined
  | JBoolean bool
  | JString jsstring
  | JObject "bool signup_value"

text \<open>ToBoolean: what \<open>if ( v )\<close> tests.  Every object is truthy.\<close>

fun truthy :: "jsval \<Rightarrow> bool" where
  "truthy JUndefined = False"
| "truthy (JBoolean b) = b"
| "truthy (JString s) = (s \<noteq> [])"
| "truthy (JObject v) = True"

text \<open>
  Strict equality \<open>===\<close>.  Values of different types are never equal; booleans and strings
  compare by value.  Objects compare by reference: the only object that ever reaches the
  component's state is the one \<open>value\<close> prop it was constructed with, so two \<open>JObject\<close>
  values met by the component are the same reference.
\<close>

definition strictEquals :: "jsval \<Rightarrow> jsval \<Rightarrow> bool" where
  "strictEquals a b = (a = b)"

section \<open>String operations\<close>

text \<open>\<open>String.prototype.indexOf( searchString )\<close>: the first index of an occurrence, or \<open>-1\<close>.\<close>

fun indexOfFrom :: "jsstring \<Rightarrow> jsstring \<Rightarrow> nat \<Rightarrow> int" where
  "indexOfFrom searchString [] k = (if searchString = [] then int k else - 1)"
| "indexOfFrom searchString (c # cs) k =
     (if prefix searchString (c # cs) then int k else indexOfFrom searchString cs (Suc k))"

definition indexOf :: "jsstring \<Rightarrow> jsstring \<Rightarrow> int" where
  "indexOf s searchString = indexOfFrom searchString s 0"

text \<open>
  \<open>String.prototype.endsWith( searchString, endPosition )\<close>: the string is cut at
  \<open>endPosition\<close> (clamped to its length) and the cut string is tested for the suffix.
\<close>

definition endsWith :: "jsstring \<Rightarrow> jsstring \<Rightarrow> nat \<Rightarrow> bool" where
  "endsWith s searchString endPosition =
     (let end = min endPosition (length s);
          searchLength = length searchString
      in if end < searchLength then False
         else take searchLength (drop (end - searchLength) s) = searchString)"

text \<open>\<open>String.prototype.slice( begin )\<close> for a non-negative \<open>begin\<close>.\<close>

definition slice :: "jsstring \<Rightarrow> nat \<Rightarrow> jsstring" where
  "slice s begin = drop (min begin (length s)) s"

text \<open>
  The regular expression \<open>/<a.*?<\/a>/\<close>.  The dot matches any code unit that is not a line
  terminator (LF, CR, U+2028, U+2029).
\<close>

definition isLineTerminator :: "16 word \<Rightarrow> bool" where
  "isLineTerminator c = (c = 0x000A \<or> c = 0x000D \<or> c = 0x2028 \<or> c = 0x2029)"

text \<open>
  \<open>.*?<\/a>\<close> at the start of a string: the lazy star takes as few code units as possible
  before \<open></a>\<close>.  The result is what follows the match.
\<close>

fun matchLazyDotsClose :: "jsstring \<Rightarrow> jsstring option" where
  "matchLazyDotsClose [] = None"
| "matchLazyDotsClose (c # cs) =
     (if prefix (js ''</a>'') (c # cs) then Some (drop 4 (c # cs))
      else if isLineTerminator c then None
      else matchLazyDotsClose cs)"

text \<open>The whole expression at the start of a string.\<close>

definition matchLinkAt :: "jsstring \<Rightarrow> jsstring option" where
  "matchLinkAt s = (if prefix (js ''<a'') s then matchLazyDotsClose (drop 2 s) else None)"

text \<open>
  \<open>message.replace( /<a.*?<\/a>/, "" )\<close>: the expression has no global flag, so the
  leftmost match is removed and nothing else.
\<close>

fun replaceLink :: "jsstring \<Rightarrow> jsstring" where
  "replaceLink [] = []"
| "replaceLink (c # cs) =
     (case matchLinkAt (c # cs) of
        Some rest \<Rightarrow> rest
      | None \<Rightarrow> c # replaceLink cs)"

definition stripLinkFromMessage :: "jsstring \<Rightarrow> jsstring" where
  "stripLinkFromMessage message = replaceLink message"

definition stripMessage :: "jsstring \<Rightarrow> jsstring" where
  "stripMessage string =
     (if endsWith string (js ''0 - '') 4 then slice string 4 else string)"

section \<open>Props, state and the component instance\<close>

record newsletter_values =
  mailchimpSignup :: "jsval signup_value"

record field_values =
  newsletter :: newsletter_values

record step_state =
  currentStep :: jsstring
  fieldValues :: field_values

text \<open>The recognised keys of the \<open>properties\<close> prop; each may be missing (\<open>None\<close>).\<close>

record widget_properties =
  mailchimpActionUrl :: "jsstring option"
  title :: "jsstring option"
  label :: "jsstring option"
  freeAccountNotice :: "jsstring option"
  GDPRNotice :: "jsstring option"
  currentUserEmail :: "jsstring option"

text \<open>
  The props the component reads.  \<open>'cb\<close> is the type of host callbacks; \<open>onChange\<close> is
  optional.  The \<open>value\<close> prop is the field \<open>value_prop\<close>.
\<close>

record 'cb props =
  translate :: "jsstring \<Rightarrow> jsstring"
  name :: jsstring
  properties :: widget_properties
  onChange :: "'cb option"
  value_prop :: "bool signup_value"
  stepState :: step_state

text \<open>\<open>MailchimpSignup.defaultProps\<close>, for the props the component reads.\<close>

definition defaultProps ::
  "(jsstring \<Rightarrow> jsstring) \<Rightarrow> jsstring \<Rightarrow> 'cb option \<Rightarrow> step_state \<Rightarrow> 'cb props" where
  "defaultProps tr nm cb st =
     \<lparr> translate = tr, name = nm,
       properties = \<lparr> mailchimpActionUrl = None, title = None, label = None,
                      freeAccountNotice = None, GDPRNotice = None, currentUserEmail = None \<rparr>,
       onChange = cb,
       value_prop = \<lparr> hasSignup = False \<rparr>,
       stepState = st \<rparr>"

text \<open>\<open>this.state\<close>.  \<open>message\<close> is \<open>None\<close> while the key is unset (\<open>undefined\<close>).\<close>

record state =
  successfulSignup :: jsval
  isLoading :: bool
  message :: "jsstring option"

text \<open>
  The instance: \<open>this.props\<close>, \<open>this.state\<close> and the field \<open>this.onChange\<close>, which is
  \<open>undefined\<close> until a render binds it.
\<close>

record 'cb component =
  props :: "'cb props"
  state :: state
  this_onChange :: "'cb option"

definition constructor :: "'cb props \<Rightarrow> 'cb component" where
  "constructor p =
     \<lparr> props = p,
       state = \<lparr> successfulSignup = JObject (value_prop p), isLoading = False, message = None \<rparr>,
       this_onChange = None \<rparr>"

definition hasSubscription :: "'cb component \<Rightarrow> bool" where
  "hasSubscription c = hasSignup (value_prop (props c))"

section \<open>Rendered output\<close>

text \<open>
  What \<open>render\<close> returns: elements with their attributes and children, text, \<open>Null\<close> for a
  child that renders nothing (\<open>null\<close>, \<open>undefined\<close>), and \<open>Component\<close> for an imported
  component such as \<open>LoadingIndicator\<close>.
\<close>

datatype attr =
    AttrString jsstring
  | AttrUndefined
  | AttrCallback string
  | AttrHtml jsstring

datatype vnode =
    Element string "(string \<times> attr) list" "vnode list"
  | Text jsstring
  | Null
  | Component string

text \<open>\<open>{ x }\<close> for an optional string \<open>x\<close>.\<close>

definition child :: "jsstring option \<Rightarrow> vnode" where
  "child x = (case x of None \<Rightarrow> Null | Some s \<Rightarrow> Text s)"

definition attrOf :: "jsstring option \<Rightarrow> attr" where
  "attrOf x = (case x of None \<Rightarrow> AttrUndefined | Some s \<Rightarrow> AttrString s)"

text \<open>\<open>{ x && element }\<close> for an optional string \<open>x\<close>: a falsy \<open>x\<close> is itself the child.\<close>

definition andElement :: "jsstring option \<Rightarrow> (jsstring \<Rightarrow> vnode) \<Rightarrow> vnode" where
  "andElement x element =
     (case x of None \<Rightarrow> Null | Some s \<Rightarrow> if s = [] then Text [] else element s)"

definition getSignupMessage :: "'cb component \<Rightarrow> vnode" where
  "getSignupMessage c =
     (if truthy (successfulSignup (state c))
      then Element ''p'' [(''className'', AttrString (js ''yoast-wizard-mailchimp-message-success'')),
                          (''aria-live'', AttrString (js ''assertive''))]
                         [child (message (state c))]
      else Element ''p'' [(''className'', AttrString (js ''yoast-wizard-mailchimp-message-error'')),
                          (''aria-live'', AttrString (js ''assertive''))]
                         [child (message (state c))])"

definition getLoadingIndicator :: "'cb component \<Rightarrow> vnode" where
  "getLoadingIndicator c =
     (if \<not> isLoading (state c) then Null
      else Element ''div'' [(''className'', AttrString (js ''yoast-wizard-overlay''))]
                           [Component ''LoadingIndicator''])"

definition skipRendering :: "'cb component \<Rightarrow> bool" where
  "skipRendering c =
     (let stepState = stepState (props c);
          isCurrentStepSuccess = (currentStep stepState = js ''success'');
          hasMailchimpSignup =
            strictEquals (hasSignup (mailchimpSignup (newsletter (fieldValues stepState))))
                         (JBoolean True)
      in isCurrentStepSuccess \<and> hasMailchimpSignup)"

text \<open>
  \<open>render\<close> returns the output (\<open>None\<close> for \<open>null\<close>) and the instance, whose field
  \<open>this.onChange\<close> it assigns when it does not skip.
\<close>

definition render :: "'cb component \<Rightarrow> vnode option \<times> 'cb component" where
  "render c =
     (if skipRendering c then (None, c)
      else
        let c' = c\<lparr> this_onChange := onChange (props c) \<rparr>;
            p = properties (props c);
            input = Element ''input''
                      [(''id'', AttrString (js ''mailchimpEmail'')),
                       (''className'', AttrString (js ''yoast-field-group__inputfield'')),
                       (''ref'', AttrCallback ''setEmailInputRef''),
                       (''type'', AttrString (js ''email'')),
                       (''name'', AttrString (name (props c))),
                       (''defaultValue'', attrOf (currentUserEmail p)),
                       (''autoComplete'', AttrString (js ''email''))] [];
            button = Element ''button''
                       [(''className'', AttrString (js ''yoast-button yoast-button--primary'')),
                        (''onClick'', AttrCallback ''signup'')]
                       [Text (translate (props c) (js ''Sign up!''))];
            message = getSignupMessage c';
            loader = getLoadingIndicator c'
        in (Some
             (Element ''div''
                [(''className'', AttrString (js ''yoast-wizard--columns yoast-wizard-newsletter''))]
                [Element ''div'' []
                   [Element ''h2''
                      [(''className'', AttrString (js ''yoast-wizard-newsletter--header''))]
                      [child (title p)],
                    Element ''p'' [] [child (label p)],
                    andElement (freeAccountNotice p) (\<lambda>s. Element ''strong'' [] [Text s]),
                    Element ''div''
                      [(''className'',
                        AttrString (js ''yoast-wizard--columns yoast-wizard--columns__even''))]
                      [Element ''div''
                         [(''className'',
                           AttrString (js ''yoast-wizard-text-input yoast-wizard__mailchimp''))]
                         [Element ''div''
                            [(''className'', AttrString (js ''yoast-wizard__mailchimp-input''))]
                            [Element ''label''
                               [(''htmlFor'', AttrString (js ''mailchimpEmail'')),
                                (''className'', AttrString (js ''yoast-wizard-text-input-label''))]
                               [Text (translate (props c) (js ''Email''))],
                             input],
                          button]],
                    message,
                    loader,
                    andElement (GDPRNotice p)
                      (\<lambda>s. Element ''div'' [(''dangerouslySetInnerHTML'', AttrHtml s)] [])]]),
            c'))"

text \<open>Counting in a rendered tree: the elements with a given tag, and the status paragraphs.\<close>

fun countTag :: "string \<Rightarrow> vnode \<Rightarrow> nat" where
  "countTag t (Element tag attrs children) =
     (if tag = t then 1 else 0) + sum_list (map (countTag t) children)"
| "countTag t (Text s) = 0"
| "countTag t Null = 0"
| "countTag t (Component n) = 0"

fun assertiveParagraphs :: "vnode \<Rightarrow> vnode list" where
  "assertiveParagraphs (Element tag attrs children) =
     (if tag = ''p'' \<and> map_of attrs ''aria-live'' = Some (AttrString (js ''assertive''))
      then [Element tag attrs children] else [])
     @ concat (map assertiveParagraphs children)"
| "assertiveParagraphs (Text s) = []"
| "assertiveParagraphs Null = []"
| "assertiveParagraphs (Component n) = []"

section \<open>Change events and the update cycle\<close>

datatype error = TypeError

text \<open>The event object: \<open>{ target: { name: ..., value: { hasSignup: ... } } }\<close>.\<close>

record change_event =
  target_name :: jsstring
  target_value :: "jsval signup_value"

text \<open>
  \<open>this.onChange( evt )\<close>: the call made, as the pair of the callback and its argument.
  Calling the field while it is \<open>undefined\<close> raises a TypeError.
\<close>

definition sendChangeEvent :: "'cb component \<Rightarrow> error + ('cb \<times> change_event) list" where
  "sendChangeEvent c =
     (let evt = \<lparr> target_name = js ''mailchimpSignup'',
                  target_value = \<lparr> hasSignup = successfulSignup (state c) \<rparr> \<rparr>
      in case this_onChange c of
           None \<Rightarrow> Inl TypeError
         | Some cb \<Rightarrow> Inr [(cb, evt)])"

definition componentDidUpdate :: "'cb component \<Rightarrow> state \<Rightarrow> error + ('cb \<times> change_event) list" where
  "componentDidUpdate c prevState =
     (let successfulSignup =
            \<not> strictEquals (successfulSignup (state c)) (successfulSignup prevState)
      in if successfulSignup then sendChangeEvent c else Inr [])"

text \<open>The request handed to \<open>sendRequest\<close>: the URL and the options object.\<close>

record request =
  url :: "jsstring option"
  data :: jsstring
  headers :: "(jsstring \<times> jsstring) list"
  dataType :: jsstring
  jsonp :: jsstring
  http_method :: jsstring

text \<open>
  What one step of the component does: the instance afterwards, the outputs of the renders
  it ran, the calls made to \<open>this.onChange\<close>, the requests handed to \<open>sendRequest\<close> and the
  lines written with \<open>console.error\<close> (the translated label and the logged value).
\<close>

record ('cb, 'e) outcome =
  after :: "'cb component"
  rendered :: "vnode option list"
  emitted :: "('cb \<times> change_event) list"
  requests :: "request list"
  console :: "(jsstring \<times> 'e) list"

text \<open>
  React's update cycle for a class component: the new state is committed, \<open>render\<close> runs,
  then \<open>componentDidUpdate\<close> is called with the previous state.  An exception raised in the
  cycle is the result \<open>Inl\<close>.
\<close>

definition update :: "'cb component \<Rightarrow> state \<Rightarrow> error + ('cb, 'e) outcome" where
  "update c s =
     (let prevState = state c;
          (out, c') = render (c\<lparr> state := s \<rparr>)
      in case componentDidUpdate c' prevState of
           Inl e \<Rightarrow> Inl e
         | Inr calls \<Rightarrow>
             Inr \<lparr> after = c', rendered = [out], emitted = calls, requests = [], console = [] \<rparr>)"

text \<open>\<open>this.setState( partial )\<close>: the partial state is merged into the current one.\<close>

definition setState :: "'cb component \<Rightarrow> (state \<Rightarrow> state) \<Rightarrow> error + ('cb, 'e) outcome" where
  "setState c partial = update c (partial (state c))"

section \<open>Signing up\<close>

text \<open>
  \<open>signup\<close>, with the value of the referenced email input at the time of the click.  The
  promise returned by \<open>sendRequest\<close> settles later; see \<open>handleResultSignup\<close>.
\<close>

definition signup :: "'cb component \<Rightarrow> jsstring \<Rightarrow> error + ('cb, 'e) outcome" where
  "signup c email =
     (let data = js ''EMAIL='' @ email
      in case setState c (\<lambda>s. s\<lparr> isLoading := True \<rparr>) of
           Inl e \<Rightarrow> Inl e
         | Inr out \<Rightarrow>
             Inr (out\<lparr> requests :=
                        [\<lparr> url = mailchimpActionUrl (properties (props c)),
                           data = data,
                           headers = [],
                           dataType = js ''jsonp'',
                           jsonp = js ''c'',
                           http_method = js ''POST'' \<rparr>] \<rparr>))"

text \<open>The structured response and the settled promise.\<close>

record response =
  result :: jsstring
  msg :: jsstring

datatype 'e settled =
    Fulfilled response
  | Rejected 'e

definition confirmationReminder :: jsstring where
  "confirmationReminder =
     js ''Almost finished... We need to confirm your email address.''
     @ js ''To complete the subscription process, please click the link in the email we just sent you.''"

text \<open>The partial state that the callback given to \<open>then\<close> passes to \<open>setState\<close>.\<close>

definition onFulfilled :: "response \<Rightarrow> state \<Rightarrow> state" where
  "onFulfilled response s =
     (if indexOf (msg response) (js ''is already subscribed'') \<noteq> - 1
      then s\<lparr> isLoading := False,
              successfulSignup := JBoolean True,
              message := Some confirmationReminder \<rparr>
      else if result response = js ''error''
      then s\<lparr> isLoading := False,
              successfulSignup := JBoolean False,
              message := Some (stripMessage (stripLinkFromMessage (msg response))) \<rparr>
      else s\<lparr> isLoading := False,
              successfulSignup := JBoolean True,
              message := Some (msg response) \<rparr>)"

definition handleResultSignup :: "'cb component \<Rightarrow> 'e settled \<Rightarrow> error + ('cb, 'e) outcome" where
  "handleResultSignup c settled =
     (case settled of
        Fulfilled response \<Rightarrow> setState c (onFulfilled response)
      | Rejected reason \<Rightarrow>
          Inr \<lparr> after = c, rendered = [], emitted = [], requests = [],
                console = [(translate (props c) (js ''MailChimp signup failed:''), reason)] \<rparr>)"

text \<open>The host context \<open>{ currentStep, fieldValues: { newsletter: { mailchimpSignup: { hasSignup } } } }\<close>.\<close>

definition stepContext :: "jsstring \<Rightarrow> jsval \<Rightarrow> step_state" where
  "stepContext step flag =
     \<lparr> currentStep = step,
       fieldValues = \<lparr> newsletter = \<lparr> mailchimpSignup = \<lparr> hasSignup = flag \<rparr> \<rparr> \<rparr> \<rparr>"

section \<open>The specification's reading, for comparison\<close>

text \<open>
  The specification's tagged response and its classification rule, in the specification's
  words: already-subscribed if \<open>msg\<close> contains the substring, whatever \<open>result\<close> is; else an
  error if \<open>result\<close> is \<open>"error"\<close>; else a success.
\<close>

datatype RemoteResponse =
    Success jsstring
  | AlreadySubscribed
  | Error jsstring

definition classify_spec :: "response \<Rightarrow> RemoteResponse" where
  "classify_spec r =
     (if sublist (js ''is already subscribed'') (msg r) then AlreadySubscribed
      else if result r = js ''error'' then Error (msg r)
      else Success (msg r))"

text \<open>
  The specification's transitions out of \<open>Submitting\<close>: to \<open>Succeeded\<close> with the message, or
  with the fixed reminder for an already-subscribed address, and to \<open>Failed\<close> with the
  sanitized message.
\<close>

definition transition_spec :: "RemoteResponse \<Rightarrow> state \<Rightarrow> state" where
  "transition_spec r s =
     (case r of
        AlreadySubscribed \<Rightarrow>
          s\<lparr> isLoading := False, successfulSignup := JBoolean True,
             message := Some confirmationReminder \<rparr>
      | Error m \<Rightarrow>
          s\<lparr> isLoading := False, successfulSignup := JBoolean False,
             message := Some (stripMessage (stripLinkFromMessage m)) \<rparr>
      | Success m \<Rightarrow>
          s\<lparr> isLoading := False, successfulSignup := JBoolean True,
             message := Some m \<rparr>)"

text \<open>
  The specification's URL-encoded address, as \<open>encodeURIComponent\<close> computes it for code
  units below 128: letters, digits and \<open>- _ . ! ~ * ' ( )\<close> are kept, every other code unit
  is written \<open>%XX\<close>.  The result is \<open>None\<close> for a string with a code unit from 128 on, which
  this definition does not cover.
\<close>

definition isUnreserved :: "16 word \<Rightarrow> bool" where
  "isUnreserved c =
     (c = 0x27 \<or>
      c \<in> set (js ''ABCDEFGHIJKLMNOPQRSTUVWXYZabcdefghijklmnopqrstuvwxyz0123456789-_.!~*()''))"

definition hexDigit :: "16 word \<Rightarrow> 16 word" where
  "hexDigit n = js ''0123456789ABCDEF'' ! unat n"

fun urlencode_spec :: "jsstring \<Rightarrow> jsstring option" where
  "urlencode_spec [] = Some []"
| "urlencode_spec (c # cs) =
     (if 0x80 \<le> c then None
      else case urlencode_spec cs of
             None \<Rightarrow> None
           | Some rest \<Rightarrow>
               Some ((if isUnreserved c then [c]
                      else [0x25, hexDigit (c div 16), hexDigit (c mod 16)]) @ rest))"

section \<open>Facts about the string operations\<close>

lemma length_js [simp]: "length (js s) = length s"
  by (simp add: js_def)

lemma indexOfFrom_found: "indexOfFrom p s k \<noteq> - 1 \<longleftrightarrow> sublist p s"
  by (induction s arbitrary: k) (auto simp: sublist_Cons_right)

lemma indexOf_found: "indexOf s p \<noteq> - 1 \<longleftrightarrow> sublist p s"
  by (simp add: indexOf_def indexOfFrom_found)

lemma endsWith_prefix: "endsWith s p (length p) \<longleftrightarrow> prefix p s"
proof (cases "length p \<le> length s")
  case True
  then have "endsWith s p (length p) \<longleftrightarrow> take (length p) s = p"
    by (simp add: endsWith_def Let_def min_def)
  also have "\<dots> \<longleftrightarrow> prefix p s"
    using True by (metis prefix_def append_eq_conv_conj append_take_drop_id)
  finally show ?thesis .
next
  case False
  then have "\<not> endsWith s p (length p)"
    by (simp add: endsWith_def Let_def min_def)
  moreover have "\<not> prefix p s"
    using False prefix_length_le by blast
  ultimately show ?thesis by simp
qed

lemma stripMessage_prefix:
  "stripMessage s = (if prefix (js ''0 - '') s then drop 4 s else s)"
proof -
  have len: "length (js ''0 - '') = 4"
    by simp
  have "endsWith s (js ''0 - '') 4 \<longleftrightarrow> prefix (js ''0 - '') s"
    using endsWith_prefix [of s "js ''0 - ''"] unfolding len .
  then show ?thesis
    by (simp add: stripMessage_def slice_def min_def)
qed

lemma reminder_has_no_marker:
  "\<not> sublist (js ''is already subscribed'') confirmationReminder"
proof -
  have "indexOf confirmationReminder (js ''is already subscribed'') = - 1"
    by (simp add: indexOf_def confirmationReminder_def js_def)
  then show ?thesis
    using indexOf_found by blast
qed

section \<open>Facts about rendering and the update cycle\<close>

lemma snd_render:
  "snd (render c) = (if skipRendering c then c else c\<lparr> this_onChange := onChange (props c) \<rparr>)"
  by (simp add: render_def Let_def)

lemma state_snd_render [simp]: "state (snd (render c)) = state c"
  by (simp add: snd_render)

lemma props_snd_render [simp]: "props (snd (render c)) = props c"
  by (simp add: snd_render)

lemma skipRendering_state [simp]: "skipRendering (c\<lparr> state := s \<rparr>) = skipRendering c"
  by (simp add: skipRendering_def)

lemma update_same_flag:
  assumes "successfulSignup s = successfulSignup (state c)"
  shows "update c s =
           Inr \<lparr> after = snd (render (c\<lparr> state := s \<rparr>)),
                 rendered = [fst (render (c\<lparr> state := s \<rparr>))],
                 emitted = [], requests = [], console = [] \<rparr>"
proof -
  obtain out c' where r: "render (c\<lparr> state := s \<rparr>) = (out, c')"
    by (cases "render (c\<lparr> state := s \<rparr>)")
  have "state c' = s"
    using r snd_render [of "c\<lparr> state := s \<rparr>"] by (simp split: if_splits)
  then show ?thesis
    using r assms by (simp add: update_def componentDidUpdate_def strictEquals_def)
qed

lemma update_bound:
  assumes "onChange (props c) = Some cb" and "this_onChange c = Some cb"
  shows "update c s =
           Inr \<lparr> after = snd (render (c\<lparr> state := s \<rparr>)),
                 rendered = [fst (render (c\<lparr> state := s \<rparr>))],
                 emitted =
                   (if successfulSignup s \<noteq> successfulSignup (state c)
                    then [(cb, \<lparr> target_name = js ''mailchimpSignup'',
                                 target_value = \<lparr> hasSignup = successfulSignup s \<rparr> \<rparr>)]
                    else []),
                 requests = [], console = [] \<rparr>"
proof -
  obtain out c' where r: "render (c\<lparr> state := s \<rparr>) = (out, c')"
    by (cases "render (c\<lparr> state := s \<rparr>)")
  have c': "c' = (if skipRendering c then c\<lparr> state := s \<rparr>
                  else c\<lparr> state := s, this_onChange := Some cb \<rparr>)"
    using r snd_render [of "c\<lparr> state := s \<rparr>"] assms by simp
  then have "this_onChange c' = Some cb" and "state c' = s"
    using assms by auto
  then show ?thesis
    using r
    by (simp add: update_def componentDidUpdate_def sendChangeEvent_def strictEquals_def)
qed

lemma signup_total:
  "signup c email =
     Inr \<lparr> after = snd (render (c\<lparr> state := (state c)\<lparr> isLoading := True \<rparr> \<rparr>)),
           rendered = [fst (render (c\<lparr> state := (state c)\<lparr> isLoading := True \<rparr> \<rparr>))],
           emitted = [],
           requests = [\<lparr> url = mailchimpActionUrl (properties (props c)),
                         data = js ''EMAIL='' @ email,
                         headers = [],
                         dataType = js ''jsonp'',
                         jsonp = js ''c'',
                         http_method = js ''POST'' \<rparr>],
           console = [] \<rparr>"
  by (simp add: signup_def setState_def update_same_flag)

lemma getSignupMessage_binding [simp]:
  "getSignupMessage (c\<lparr> this_onChange := x \<rparr>) = getSignupMessage c"
  by (simp add: getSignupMessage_def)

lemma getSignupMessage_paragraph:
  "getSignupMessage c =
     Element ''p''
       [(''className'',
         AttrString (if truthy (successfulSignup (state c))
                     then js ''yoast-wizard-mailchimp-message-success''
                     else js ''yoast-wizard-mailchimp-message-error'')),
        (''aria-live'', AttrString (js ''assertive''))]
       [child (message (state c))]"
  by (simp add: getSignupMessage_def)

lemma assertiveParagraphs_child [simp]: "assertiveParagraphs (child x) = []"
  by (simp add: child_def split: option.splits)

lemma assertiveParagraphs_getSignupMessage [simp]:
  "assertiveParagraphs (getSignupMessage c) = [getSignupMessage c]"
  by (simp add: getSignupMessage_def)

lemma assertiveParagraphs_getLoadingIndicator [simp]:
  "assertiveParagraphs (getLoadingIndicator c) = []"
  by (simp add: getLoadingIndicator_def)

lemma assertiveParagraphs_strong [simp]:
  "assertiveParagraphs (andElement x (\<lambda>s. Element ''strong'' [] [Text s])) = []"
  by (simp add: andElement_def split: option.splits)

lemma assertiveParagraphs_notice [simp]:
  "assertiveParagraphs
     (andElement x (\<lambda>s. Element ''div'' [(''dangerouslySetInnerHTML'', AttrHtml s)] [])) = []"
  by (simp add: andElement_def split: option.splits)

lemma render_paragraphs:
  assumes "\<not> skipRendering c"
  shows "\<exists>tree. fst (render c) = Some tree \<and> assertiveParagraphs tree = [getSignupMessage c]"
  using assms by (simp add: render_def Let_def)

lemma countTag_child [simp]: "countTag t (child x) = 0"
  by (simp add: child_def split: option.splits)

lemma countTag_getSignupMessage:
  "countTag t (getSignupMessage c) = (if t = ''p'' then 1 else 0)"
  by (simp add: getSignupMessage_def)

lemma countTag_getLoadingIndicator:
  "countTag t (getLoadingIndicator c) = (if isLoading (state c) \<and> t = ''div'' then 1 else 0)"
  by (simp add: getLoadingIndicator_def)

lemma countTag_strong:
  "t \<noteq> ''strong'' \<Longrightarrow> countTag t (andElement x (\<lambda>s. Element ''strong'' [] [Text s])) = 0"
  by (simp add: andElement_def split: option.splits)

lemma countTag_notice:
  "t \<noteq> ''div'' \<Longrightarrow>
     countTag t (andElement x (\<lambda>s. Element ''div'' [(''dangerouslySetInnerHTML'', AttrHtml s)] [])) = 0"
  by (simp add: andElement_def split: option.splits)

lemma render_form:
  assumes "\<not> skipRendering c"
  shows "\<exists>tree. render c = (Some tree, c\<lparr> this_onChange := onChange (props c) \<rparr>)
           \<and> countTag ''input'' tree = 1 \<and> countTag ''button'' tree = 1
           \<and> countTag ''label'' tree = 1"
  using assms
  by (simp add: render_def Let_def countTag_getSignupMessage countTag_getLoadingIndicator
        countTag_strong countTag_notice)

lemma skipRendering_iff:
  "skipRendering c \<longleftrightarrow>
     currentStep (stepState (props c)) = js ''success'' \<and>
     hasSignup (mailchimpSignup (newsletter (fieldValues (stepState (props c))))) = JBoolean True"
  by (simp add: skipRendering_def strictEquals_def Let_def)


lemma update_Inr:
  assumes "update c s = Inr out"
  shows "after out = snd (render (c\<lparr> state := s \<rparr>))
         \<and> rendered out = [fst (render (c\<lparr> state := s \<rparr>))]"
  using assms
  by (auto simp: update_def Let_def split: prod.splits sum.splits)

lemma handleResultSignup_Fulfilled:
  "handleResultSignup c (Fulfilled r) = update c (onFulfilled r (state c))"
  by (simp add: handleResultSignup_def setState_def)

lemma onFulfilled_marker:
  assumes "sublist (js ''is already subscribed'') (msg r)"
  shows "onFulfilled r s =
           s\<lparr> isLoading := False, successfulSignup := JBoolean True,
              message := Some confirmationReminder \<rparr>"
  using assms by (simp add: onFulfilled_def indexOf_found)


section \<open>Classification of a structured response\<close>

text \<open>
  C1. For every structured response \<open>{result, msg}\<close> the state that the component passes to
  \<open>setState\<close> is the one the specification's classification determines: a message that
  contains "is already subscribed" is treated as already subscribed whatever \<open>result\<close> is,
  otherwise a \<open>result\<close> equal to "error" is an error carrying \<open>msg\<close>, otherwise the response
  is a success carrying \<open>msg\<close>.
\<close>

theorem handleResultSignup_classification:
  "onFulfilled r s = transition_spec (classify_spec r) s
   \<and> (sublist (js ''is already subscribed'') (msg r) \<longrightarrow>
        onFulfilled (r\<lparr> result := x \<rparr>) s = transition_spec AlreadySubscribed s)
   \<and> (\<not> sublist (js ''is already subscribed'') (msg r) \<and> result r = js ''error'' \<longrightarrow>
        onFulfilled r s = transition_spec (Error (msg r)) s)
   \<and> (\<not> sublist (js ''is already subscribed'') (msg r) \<and> result r \<noteq> js ''error'' \<longrightarrow>
        onFulfilled r s = transition_spec (Success (msg r)) s)"
  by (simp add: onFulfilled_def transition_spec_def classify_spec_def indexOf_found)

theorem handleResultSignup_classification_witness:
  "onFulfilled \<lparr> result = js ''success'', msg = js ''a@b.c is already subscribed to list X'' \<rparr>
     \<lparr> successfulSignup = JBoolean False, isLoading = True, message = None \<rparr>
   = \<lparr> successfulSignup = JBoolean True, isLoading = False, message = Some confirmationReminder \<rparr>
   \<and> onFulfilled \<lparr> result = js ''error'', msg = js ''Too many attempts'' \<rparr>
     \<lparr> successfulSignup = JBoolean False, isLoading = True, message = None \<rparr>
   = \<lparr> successfulSignup = JBoolean False, isLoading = False,
       message = Some (stripMessage (stripLinkFromMessage (js ''Too many attempts''))) \<rparr>
   \<and> onFulfilled \<lparr> result = js ''success'', msg = js ''Thank you'' \<rparr>
     \<lparr> successfulSignup = JBoolean False, isLoading = True, message = None \<rparr>
   = \<lparr> successfulSignup = JBoolean True, isLoading = False, message = Some (js ''Thank you'') \<rparr>"
proof -
  let ?marker = "js ''is already subscribed''"
  let ?s = "\<lparr> successfulSignup = JBoolean False, isLoading = True, message = None \<rparr>"
  have a: "sublist ?marker (js ''a@b.c is already subscribed to list X'')"
    unfolding indexOf_found [symmetric] by (simp add: indexOf_def js_def)
  have b: "\<not> sublist ?marker (js ''Too many attempts'')"
    unfolding indexOf_found [symmetric] by (simp add: indexOf_def js_def)
  have c: "\<not> sublist ?marker (js ''Thank you'')"
    unfolding indexOf_found [symmetric] by (simp add: indexOf_def js_def)
  have d: "js ''success'' \<noteq> js ''error''"
    by (simp add: js_def)
  show ?thesis
    using a b c d
      handleResultSignup_classification
        [of "\<lparr> result = js ''success'', msg = js ''a@b.c is already subscribed to list X'' \<rparr>"
            ?s "js ''success''"]
      handleResultSignup_classification
        [of "\<lparr> result = js ''error'', msg = js ''Too many attempts'' \<rparr>" ?s]
      handleResultSignup_classification
        [of "\<lparr> result = js ''success'', msg = js ''Thank you'' \<rparr>" ?s]
    by (simp add: transition_spec_def classify_spec_def)
qed

section \<open>Change events\<close>

text \<open>
  C2, as the code has it. Let \<open>this.onChange\<close> be bound to the host's callback. After a state
  update the callback is called exactly when the new \<open>successfulSignup\<close> differs (\<open>!==\<close>)
  from the previous one, once, with the event
  \<open>{target: {name: "mailchimpSignup", value: {hasSignup: <the new flag>}}}\<close>; the settling
  of a response is such an update. An update that leaves the flag as it was, such as a
  render with unchanged state, calls nothing.
\<close>

theorem change_event_on_flag_change:
  assumes "onChange (props c) = Some cb" and "this_onChange c = Some cb"
  shows "(\<exists>out :: ('cb, 'e) outcome. update c s = Inr out
            \<and> emitted out =
                (if successfulSignup s \<noteq> successfulSignup (state c)
                 then [(cb, \<lparr> target_name = js ''mailchimpSignup'',
                              target_value = \<lparr> hasSignup = successfulSignup s \<rparr> \<rparr>)]
                 else []))
         \<and> (handleResultSignup c (Fulfilled r) :: error + ('cb, 'e) outcome)
             = update c (onFulfilled r (state c))
         \<and> (\<exists>out :: ('cb, 'e) outcome. update c (state c) = Inr out \<and> emitted out = [])"
proof -
  have "\<exists>out :: ('cb, 'e) outcome. update c s = Inr out
            \<and> emitted out =
                (if successfulSignup s \<noteq> successfulSignup (state c)
                 then [(cb, \<lparr> target_name = js ''mailchimpSignup'',
                              target_value = \<lparr> hasSignup = successfulSignup s \<rparr> \<rparr>)]
                 else [])"
    unfolding update_bound [OF assms] by simp
  moreover have "\<exists>out :: ('cb, 'e) outcome. update c (state c) = Inr out \<and> emitted out = []"
    unfolding update_bound [OF assms] by simp
  ultimately show ?thesis
    by (simp add: handleResultSignup_Fulfilled)
qed

theorem change_event_on_flag_change_witness:
  "(\<exists>out :: (unit, unit) outcome.
      handleResultSignup
        ((constructor (defaultProps id (js ''mailchimpSignup'') (Some ())
                         (stepContext (js ''newsletter'') (JBoolean False))))
           \<lparr> state := \<lparr> successfulSignup = JBoolean False, isLoading = True, message = None \<rparr>,
             this_onChange := Some () \<rparr>)
        (Fulfilled \<lparr> result = js ''success'', msg = js ''Thank you'' \<rparr>) = Inr out
      \<and> emitted out = [((), \<lparr> target_name = js ''mailchimpSignup'',
                               target_value = \<lparr> hasSignup = JBoolean True \<rparr> \<rparr>)])
   \<and> (\<exists>out :: (unit, unit) outcome.
      update
        ((constructor (defaultProps id (js ''mailchimpSignup'') (Some ())
                         (stepContext (js ''newsletter'') (JBoolean False))))
           \<lparr> state := \<lparr> successfulSignup = JBoolean True, isLoading = False,
                        message = Some (js ''Thank you'') \<rparr>,
             this_onChange := Some () \<rparr>)
        \<lparr> successfulSignup = JBoolean True, isLoading = False,
          message = Some (js ''Thank you'') \<rparr> = Inr out
      \<and> emitted out = [])"
proof -
  let ?p = "defaultProps id (js ''mailchimpSignup'') (Some ())
              (stepContext (js ''newsletter'') (JBoolean False)) :: unit props"
  let ?s0 = "\<lparr> successfulSignup = JBoolean False, isLoading = True, message = None \<rparr>"
  let ?s1 = "\<lparr> successfulSignup = JBoolean True, isLoading = False,
               message = Some (js ''Thank you'') \<rparr>"
  let ?c0 = "(constructor ?p) \<lparr> state := ?s0, this_onChange := Some () \<rparr>"
  let ?c1 = "(constructor ?p) \<lparr> state := ?s1, this_onChange := Some () \<rparr>"
  let ?r = "\<lparr> result = js ''success'', msg = js ''Thank you'' \<rparr>"
  have a0: "onChange (props ?c0) = Some ()" and b0: "this_onChange ?c0 = Some ()"
    and a1: "onChange (props ?c1) = Some ()" and b1: "this_onChange ?c1 = Some ()"
    by (simp_all add: constructor_def defaultProps_def)
  have m: "indexOf (js ''Thank you'') (js ''is already subscribed'') = - 1"
    by (simp add: indexOf_def js_def)
  have e: "js ''success'' \<noteq> js ''error''"
    by (simp add: js_def)
  have f: "onFulfilled ?r (state ?c0) = ?s1"
    using m e by (simp add: onFulfilled_def)
  have s0: "state ?c0 = ?s0" and s1: "state ?c1 = ?s1"
    by simp_all
  from change_event_on_flag_change [OF a0 b0, of ?s1 ?r, where ?'e = unit]
  obtain out :: "(unit, unit) outcome"
    where u: "update ?c0 ?s1 = Inr out"
      and ev: "emitted out =
                (if successfulSignup ?s1 \<noteq> successfulSignup (state ?c0)
                 then [((), \<lparr> target_name = js ''mailchimpSignup'',
                              target_value = \<lparr> hasSignup = successfulSignup ?s1 \<rparr> \<rparr>)]
                 else [])"
      and h: "(handleResultSignup ?c0 (Fulfilled ?r) :: error + (unit, unit) outcome)
                = update ?c0 (onFulfilled ?r (state ?c0))"
    by blast
  have "handleResultSignup ?c0 (Fulfilled ?r) = Inr out"
    using h u f by simp
  moreover have "emitted out = [((), \<lparr> target_name = js ''mailchimpSignup'',
                               target_value = \<lparr> hasSignup = JBoolean True \<rparr> \<rparr>)]"
    using ev by simp
  ultimately have first: "\<exists>out :: (unit, unit) outcome.
      handleResultSignup ?c0 (Fulfilled ?r) = Inr out
      \<and> emitted out = [((), \<lparr> target_name = js ''mailchimpSignup'',
                               target_value = \<lparr> hasSignup = JBoolean True \<rparr> \<rparr>)]"
    by blast
  from change_event_on_flag_change [OF a1 b1, of ?s1 ?r, where ?'e = unit]
  have second: "\<exists>out :: (unit, unit) outcome. update ?c1 ?s1 = Inr out \<and> emitted out = []"
    unfolding s1 by simp
  from first second show ?thesis
    by blast
qed

text \<open>
  After a successful signup the flag is \<open>true\<close>. A later submission answered with an error
  sets it to \<open>false\<close>, and the callback is called with \<open>hasSignup: false\<close>.
\<close>

theorem change_event_on_failure_after_success:
  "map_sum id emitted
     (handleResultSignup
        ((constructor (defaultProps id (js ''mailchimpSignup'') (Some ())
                         (stepContext (js ''newsletter'') (JBoolean True))))
           \<lparr> state := \<lparr> successfulSignup = JBoolean True, isLoading = True,
                        message = Some (js ''Thank you'') \<rparr>,
             this_onChange := Some () \<rparr>)
        (Fulfilled \<lparr> result = js ''error'', msg = js ''0 - Invalid email'' \<rparr>)
      :: error + (unit, unit) outcome)
   = Inr [((), \<lparr> target_name = js ''mailchimpSignup'',
                 target_value = \<lparr> hasSignup = JBoolean False \<rparr> \<rparr>)]"
proof -
  let ?c = "(constructor (defaultProps id (js ''mailchimpSignup'') (Some ())
                         (stepContext (js ''newsletter'') (JBoolean True))))
           \<lparr> state := \<lparr> successfulSignup = JBoolean True, isLoading = True,
                        message = Some (js ''Thank you'') \<rparr>,
             this_onChange := Some () \<rparr>"
  have a: "onChange (props ?c) = Some ()" and b: "this_onChange ?c = Some ()"
    by (simp_all add: constructor_def defaultProps_def)
  have m: "indexOf (js ''0 - Invalid email'') (js ''is already subscribed'') = - 1"
    by (simp add: indexOf_def js_def)
  have f: "successfulSignup
             (onFulfilled \<lparr> result = js ''error'', msg = js ''0 - Invalid email'' \<rparr> (state ?c))
           = JBoolean False"
    using m by (simp add: onFulfilled_def)
  have s: "successfulSignup (state ?c) = JBoolean True"
    by simp
  show ?thesis
    unfolding handleResultSignup_Fulfilled update_bound [OF a b] f s
    by simp
qed

section \<open>An address that is already subscribed\<close>

text \<open>
  C3. For every response whose \<open>msg\<close> contains "is already subscribed", the state passed to
  \<open>setState\<close> has the success flag \<open>true\<close> and the fixed confirmation reminder as message;
  after the update the status paragraph has the success style and shows exactly the
  reminder, and the provider's message is not part of the text shown.
\<close>

theorem already_subscribed_shows_reminder:
  assumes "sublist (js ''is already subscribed'') (msg r)"
  shows "onFulfilled r s =
           s\<lparr> isLoading := False, successfulSignup := JBoolean True,
              message := Some confirmationReminder \<rparr>
         \<and> (handleResultSignup c (Fulfilled r) = Inr out \<longrightarrow>
              state (after out) =
                (state c)\<lparr> isLoading := False, successfulSignup := JBoolean True,
                           message := Some confirmationReminder \<rparr>
              \<and> getSignupMessage (after out) =
                  Element ''p''
                    [(''className'', AttrString (js ''yoast-wizard-mailchimp-message-success'')),
                     (''aria-live'', AttrString (js ''assertive''))]
                    [Text confirmationReminder]
              \<and> (\<not> skipRendering c \<longrightarrow>
                   (\<exists>tree. rendered out = [Some tree]
                      \<and> assertiveParagraphs tree = [getSignupMessage (after out)])))
         \<and> \<not> sublist (msg r) confirmationReminder
         \<and> confirmationReminder \<noteq> msg r"
proof -
  let ?s = "(state c)\<lparr> isLoading := False, successfulSignup := JBoolean True,
                        message := Some confirmationReminder \<rparr>"
  have no_raw: "\<not> sublist (msg r) confirmationReminder"
  proof
    assume "sublist (msg r) confirmationReminder"
    with assms have "sublist (js ''is already subscribed'') confirmationReminder"
      by (rule sublist_order.order_trans)
    then show False
      using reminder_has_no_marker by simp
  qed
  have differs: "confirmationReminder \<noteq> msg r"
    using no_raw by auto
  have cycle: "state (after out) = ?s
      \<and> getSignupMessage (after out) =
          Element ''p''
            [(''className'', AttrString (js ''yoast-wizard-mailchimp-message-success'')),
             (''aria-live'', AttrString (js ''assertive''))]
            [Text confirmationReminder]
      \<and> (\<not> skipRendering c \<longrightarrow>
           (\<exists>tree. rendered out = [Some tree]
              \<and> assertiveParagraphs tree = [getSignupMessage (after out)]))"
    if run: "handleResultSignup c (Fulfilled r) = Inr out"
  proof -
    have "update c ?s = Inr out"
      using run onFulfilled_marker [OF assms, of "state c"]
      by (simp add: handleResultSignup_Fulfilled)
    then have out: "after out = snd (render (c\<lparr> state := ?s \<rparr>))"
        "rendered out = [fst (render (c\<lparr> state := ?s \<rparr>))]"
      using update_Inr by blast+
    have st: "state (after out) = ?s"
      using out by simp
    have par: "getSignupMessage (after out) =
          Element ''p''
            [(''className'', AttrString (js ''yoast-wizard-mailchimp-message-success'')),
             (''aria-live'', AttrString (js ''assertive''))]
            [Text confirmationReminder]"
      using st by (simp add: getSignupMessage_paragraph child_def)
    have same: "getSignupMessage (after out) = getSignupMessage (c\<lparr> state := ?s \<rparr>)"
      using st by (simp add: getSignupMessage_paragraph)
    have "\<exists>tree. rendered out = [Some tree]
              \<and> assertiveParagraphs tree = [getSignupMessage (after out)]"
      if "\<not> skipRendering c"
      using that render_paragraphs [of "c\<lparr> state := ?s \<rparr>"] out same by simp
    then show ?thesis
      using st par by blast
  qed
  show ?thesis
    using onFulfilled_marker [OF assms] no_raw differs cycle by blast
qed

theorem already_subscribed_shows_reminder_witness:
  "\<exists>out :: (unit, unit) outcome.
      handleResultSignup
        ((constructor (defaultProps id (js ''mailchimpSignup'') (Some ())
                         (stepContext (js ''newsletter'') (JBoolean False))))
           \<lparr> state := \<lparr> successfulSignup = JBoolean False, isLoading = True, message = None \<rparr>,
             this_onChange := Some () \<rparr>)
        (Fulfilled \<lparr> result = js ''error'',
                     msg = js ''user@example.com is already subscribed to list News.'' \<rparr>)
        = Inr out
      \<and> state (after out) =
          \<lparr> successfulSignup = JBoolean True, isLoading = False,
            message = Some confirmationReminder \<rparr>
      \<and> getSignupMessage (after out) =
          Element ''p''
            [(''className'', AttrString (js ''yoast-wizard-mailchimp-message-success'')),
             (''aria-live'', AttrString (js ''assertive''))]
            [Text confirmationReminder]
      \<and> (\<exists>tree. rendered out = [Some tree]
            \<and> assertiveParagraphs tree = [getSignupMessage (after out)])"
proof -
  let ?p = "defaultProps id (js ''mailchimpSignup'') (Some ())
              (stepContext (js ''newsletter'') (JBoolean False)) :: unit props"
  let ?s0 = "\<lparr> successfulSignup = JBoolean False, isLoading = True, message = None \<rparr>"
  let ?c0 = "(constructor ?p) \<lparr> state := ?s0, this_onChange := Some () \<rparr>"
  let ?r = "\<lparr> result = js ''error'',
              msg = js ''user@example.com is already subscribed to list News.'' \<rparr>"
  have marker: "sublist (js ''is already subscribed'') (msg ?r)"
    unfolding indexOf_found [symmetric] by (simp add: indexOf_def js_def)
  have a0: "onChange (props ?c0) = Some ()" and b0: "this_onChange ?c0 = Some ()"
    by (simp_all add: constructor_def defaultProps_def)
  have noskip: "\<not> skipRendering ?c0"
    by (simp add: skipRendering_def constructor_def defaultProps_def stepContext_def js_def)
  obtain out :: "(unit, unit) outcome"
    where out: "handleResultSignup ?c0 (Fulfilled ?r) = Inr out"
    unfolding handleResultSignup_Fulfilled update_bound [OF a0 b0] by blast
  have s0: "state ?c0 = ?s0"
    by simp
  from already_subscribed_shows_reminder [OF marker, of ?s0 ?c0 out]
  have "handleResultSignup ?c0 (Fulfilled ?r) = Inr out \<longrightarrow>
          state (after out) =
            (state ?c0)\<lparr> isLoading := False, successfulSignup := JBoolean True,
                         message := Some confirmationReminder \<rparr>
          \<and> getSignupMessage (after out) =
              Element ''p''
                [(''className'', AttrString (js ''yoast-wizard-mailchimp-message-success'')),
                 (''aria-live'', AttrString (js ''assertive''))]
                [Text confirmationReminder]
          \<and> (\<not> skipRendering ?c0 \<longrightarrow>
               (\<exists>tree. rendered out = [Some tree]
                  \<and> assertiveParagraphs tree = [getSignupMessage (after out)]))"
    by blast
  with out noskip
  have st: "state (after out) =
            (state ?c0)\<lparr> isLoading := False, successfulSignup := JBoolean True,
                         message := Some confirmationReminder \<rparr>"
    and par: "getSignupMessage (after out) =
          Element ''p''
            [(''className'', AttrString (js ''yoast-wizard-mailchimp-message-success'')),
             (''aria-live'', AttrString (js ''assertive''))]
            [Text confirmationReminder]"
    and tree: "\<exists>tree. rendered out = [Some tree]
            \<and> assertiveParagraphs tree = [getSignupMessage (after out)]"
    by blast+
  have "state (after out) =
          \<lparr> successfulSignup = JBoolean True, isLoading = False,
            message = Some confirmationReminder \<rparr>"
    unfolding st s0 by simp
  with par tree
  have "state (after out) =
          \<lparr> successfulSignup = JBoolean True, isLoading = False,
            message = Some confirmationReminder \<rparr>
      \<and> getSignupMessage (after out) =
          Element ''p''
            [(''className'', AttrString (js ''yoast-wizard-mailchimp-message-success'')),
             (''aria-live'', AttrString (js ''assertive''))]
            [Text confirmationReminder]
      \<and> (\<exists>tree. rendered out = [Some tree]
            \<and> assertiveParagraphs tree = [getSignupMessage (after out)])"
    by blast
  with out show ?thesis
    by blast
qed

section \<open>Sanitizing an error message\<close>

text \<open>
  The two steps on a message with a link and a status prefix: the link goes first, then the
  prefix that the removal uncovered.
\<close>

lemma sanitize_link_then_prefix:
  "stripLinkFromMessage (js ''<a href=u>Click</a>0 - Invalid email'') = js ''0 - Invalid email''
   \<and> stripMessage (stripLinkFromMessage (js ''<a href=u>Click</a>0 - Invalid email''))
       = js ''Invalid email''"
proof -
  have "stripLinkFromMessage (js ''<a href=u>Click</a>0 - Invalid email'') = js ''0 - Invalid email''"
    by (simp add: stripLinkFromMessage_def matchLinkAt_def isLineTerminator_def js_def)
  moreover have "stripMessage (js ''0 - Invalid email'') = js ''Invalid email''"
    by (simp add: stripMessage_prefix js_def)
  ultimately show ?thesis
    by simp
qed

text \<open>
  C4. An error response whose message has a link element with a line feed inside it: the
  dot of the regular expression does not match the line feed, nothing is removed, and the
  message is shown with the link element in it.
\<close>

theorem multiline_link_not_stripped:
  "onFulfilled \<lparr> result = js ''error'',
                 msg = js ''<a href=u>click'' @ [0x000A] @ js ''here</a> failed'' \<rparr>
     \<lparr> successfulSignup = JBoolean False, isLoading = True, message = None \<rparr>
   = \<lparr> successfulSignup = JBoolean False, isLoading = False,
       message = Some (js ''<a href=u>click'' @ [0x000A] @ js ''here</a> failed'') \<rparr>"
proof -
  let ?m = "js ''<a href=u>click'' @ [0x000A] @ js ''here</a> failed''"
  have a: "indexOf ?m (js ''is already subscribed'') = - 1"
    by (simp add: indexOf_def js_def)
  have b: "stripLinkFromMessage ?m = ?m"
    by (simp add: stripLinkFromMessage_def matchLinkAt_def isLineTerminator_def js_def)
  have c: "stripMessage ?m = ?m"
    by (simp add: stripMessage_prefix js_def)
  show ?thesis
    using a b c by (simp add: onFulfilled_def)
qed

section \<open>The leading status-code prefix\<close>

text \<open>
  C5. \<open>stripMessage\<close> removes the four code units "0 - " once, and only when the string
  starts with them: sanitizing "0 - Your email is invalid" gives "Your email is invalid",
  and "No 0 - prefix present" is left as it is.
\<close>

theorem stripMessage_leading_prefix:
  "stripMessage (stripLinkFromMessage (js ''0 - Your email is invalid''))
     = js ''Your email is invalid''
   \<and> stripMessage (stripLinkFromMessage (js ''No 0 - prefix present''))
     = js ''No 0 - prefix present''
   \<and> stripMessage (js ''0 - '' @ t) = t
   \<and> (\<not> prefix (js ''0 - '') s \<longrightarrow> stripMessage s = s)"
proof -
  have a: "stripLinkFromMessage (js ''0 - Your email is invalid'') = js ''0 - Your email is invalid''"
    by (simp add: stripLinkFromMessage_def matchLinkAt_def js_def)
  have b: "stripLinkFromMessage (js ''No 0 - prefix present'') = js ''No 0 - prefix present''"
    by (simp add: stripLinkFromMessage_def matchLinkAt_def js_def)
  have c: "stripMessage (js ''0 - Your email is invalid'') = js ''Your email is invalid''"
    by (simp add: stripMessage_prefix js_def)
  have d: "stripMessage (js ''No 0 - prefix present'') = js ''No 0 - prefix present''"
    by (simp add: stripMessage_prefix js_def)
  have e: "stripMessage (js ''0 - '' @ t) = t"
    by (simp add: stripMessage_prefix)
  show ?thesis
    using a b c d e by (simp add: stripMessage_prefix)
qed

theorem stripMessage_leading_prefix_witness:
  "stripMessage (js ''0 - 0 - twice'') = js ''0 - twice''
   \<and> \<not> prefix (js ''0 - '') (js ''10 - inside'')
   \<and> stripMessage (js ''10 - inside'') = js ''10 - inside''"
proof -
  have a: "js ''0 - '' @ js ''0 - twice'' = js ''0 - 0 - twice''"
    by (simp add: js_def)
  have b: "\<not> prefix (js ''0 - '') (js ''10 - inside'')"
    by (simp add: js_def)
  show ?thesis
    using a b stripMessage_leading_prefix [of "js ''0 - twice''" "js ''10 - inside''"]
    by simp
qed

section \<open>Skipping the render\<close>

text \<open>
  C6. When the host context has \<open>currentStep\<close> equal to "success" and the recorded
  \<open>hasSignup\<close> equal to \<open>true\<close>, \<open>render\<close> returns \<open>null\<close> and leaves the instance as it is.
  For every other context it returns the form, with its one input, button and label, and
  binds \<open>this.onChange\<close>.
\<close>

theorem render_skips_after_recorded_signup:
  "(currentStep (stepState (props c)) = js ''success'' \<and>
    hasSignup (mailchimpSignup (newsletter (fieldValues (stepState (props c))))) = JBoolean True
      \<longrightarrow> render c = (None, c))
   \<and> (\<not> (currentStep (stepState (props c)) = js ''success'' \<and>
          hasSignup (mailchimpSignup (newsletter (fieldValues (stepState (props c)))))
            = JBoolean True)
      \<longrightarrow> (\<exists>tree. render c = (Some tree, c\<lparr> this_onChange := onChange (props c) \<rparr>)
             \<and> countTag ''input'' tree = 1 \<and> countTag ''button'' tree = 1
             \<and> countTag ''label'' tree = 1))"
proof (intro conjI impI)
  assume "currentStep (stepState (props c)) = js ''success'' \<and>
    hasSignup (mailchimpSignup (newsletter (fieldValues (stepState (props c))))) = JBoolean True"
  then have "skipRendering c"
    by (simp add: skipRendering_iff)
  then show "render c = (None, c)"
    by (simp add: render_def)
next
  assume "\<not> (currentStep (stepState (props c)) = js ''success'' \<and>
    hasSignup (mailchimpSignup (newsletter (fieldValues (stepState (props c))))) = JBoolean True)"
  then have "\<not> skipRendering c"
    by (simp add: skipRendering_iff)
  then show "\<exists>tree. render c = (Some tree, c\<lparr> this_onChange := onChange (props c) \<rparr>)
             \<and> countTag ''input'' tree = 1 \<and> countTag ''button'' tree = 1
             \<and> countTag ''label'' tree = 1"
    by (rule render_form)
qed

theorem render_skips_after_recorded_signup_witness:
  "render (constructor (defaultProps id (js ''mailchimpSignup'') (Some ())
                          (stepContext (js ''success'') (JBoolean True))))
     = (None, constructor (defaultProps id (js ''mailchimpSignup'') (Some ())
                             (stepContext (js ''success'') (JBoolean True))))
   \<and> (\<exists>tree.
        render (constructor (defaultProps id (js ''mailchimpSignup'') (Some ())
                               (stepContext (js ''success'') (JBoolean False))))
          = (Some tree,
             (constructor (defaultProps id (js ''mailchimpSignup'') (Some ())
                             (stepContext (js ''success'') (JBoolean False))))
               \<lparr> this_onChange := Some () \<rparr>)
        \<and> countTag ''input'' tree = 1 \<and> countTag ''button'' tree = 1
        \<and> countTag ''label'' tree = 1)"
proof -
  let ?skip = "constructor (defaultProps id (js ''mailchimpSignup'') (Some ())
                              (stepContext (js ''success'') (JBoolean True))) :: unit component"
  let ?form = "constructor (defaultProps id (js ''mailchimpSignup'') (Some ())
                              (stepContext (js ''success'') (JBoolean False))) :: unit component"
  have a: "currentStep (stepState (props ?skip)) = js ''success'' \<and>
           hasSignup (mailchimpSignup (newsletter (fieldValues (stepState (props ?skip)))))
             = JBoolean True"
    by (simp add: constructor_def defaultProps_def stepContext_def)
  have b: "\<not> (currentStep (stepState (props ?form)) = js ''success'' \<and>
           hasSignup (mailchimpSignup (newsletter (fieldValues (stepState (props ?form)))))
             = JBoolean True)"
    by (simp add: constructor_def defaultProps_def stepContext_def)
  have c: "onChange (props ?form) = Some ()"
    by (simp add: constructor_def defaultProps_def)
  from render_skips_after_recorded_signup [of ?skip] a have 1: "render ?skip = (None, ?skip)"
    by blast
  from render_skips_after_recorded_signup [of ?form] b c
  have 2: "\<exists>tree. render ?form = (Some tree, ?form\<lparr> this_onChange := Some () \<rparr>)
        \<and> countTag ''input'' tree = 1 \<and> countTag ''button'' tree = 1
        \<and> countTag ''label'' tree = 1"
    by simp
  from 1 2 show ?thesis
    by blast
qed

section \<open>A request that fails in transport\<close>

text \<open>
  C7. When the promise of the request is rejected, the component's state stays as \<open>signup\<close>
  left it: the loading flag is true, the message and the success flag are what they were
  before the click, nothing is rendered again, no change event is sent, and the only effect
  is one line on the error console.
\<close>

theorem rejected_request_only_logged:
  "\<exists>out out'.
     signup c email = Inr out \<and>
     handleResultSignup (after out) (Rejected reason) = Inr out' \<and>
     after out' = after out \<and>
     isLoading (state (after out')) \<and>
     message (state (after out')) = message (state c) \<and>
     successfulSignup (state (after out')) = successfulSignup (state c) \<and>
     rendered out' = [] \<and> emitted out' = [] \<and> requests out' = [] \<and>
     console out' = [(translate (props c) (js ''MailChimp signup failed:''), reason)]"
  by (simp add: signup_total handleResultSignup_def)

theorem rejected_request_only_logged_witness:
  "\<exists>out out'.
     signup (constructor (defaultProps id (js ''mailchimpSignup'') (Some ())
               (stepContext (js ''newsletter'') (JBoolean False))))
       (js ''user@example.com'') = Inr out \<and>
     handleResultSignup (after out) (Rejected (js ''timeout'')) = Inr out' \<and>
     isLoading (state (after out')) \<and>
     message (state (after out')) = None \<and>
     emitted out' = ([] :: (unit \<times> change_event) list) \<and>
     console out' = [(js ''MailChimp signup failed:'', js ''timeout'')]"
  using rejected_request_only_logged
    [of "constructor (defaultProps id (js ''mailchimpSignup'') (Some ())
           (stepContext (js ''newsletter'') (JBoolean False)))"
        "js ''user@example.com''" "js ''timeout''"]
  by (auto simp: constructor_def defaultProps_def)

section \<open>The initial state\<close>

text \<open>
  C8. The constructor seeds \<open>successfulSignup\<close> with the whole \<open>value\<close> prop, not with its
  \<open>hasSignup\<close> field: with the default \<open>{hasSignup: false}\<close> the initial flag is that
  object, which differs from the boolean that \<open>hasSubscription\<close> returns and is truthy.
\<close>

theorem constructor_seeds_value_object:
  "successfulSignup (state (constructor (defaultProps tr nm cb st)))
     = JObject \<lparr> hasSignup = False \<rparr>
   \<and> successfulSignup (state (constructor (defaultProps tr nm cb st)))
       \<noteq> JBoolean (hasSubscription (constructor (defaultProps tr nm cb st)))
   \<and> hasSubscription (constructor (defaultProps tr nm cb st)) = False
   \<and> truthy (successfulSignup (state (constructor (defaultProps tr nm cb st))))"
  by (simp add: constructor_def defaultProps_def hasSubscription_def)

section \<open>The request of a submit\<close>

text \<open>
  C9, as the code has it. Every \<open>signup\<close> hands exactly one request to \<open>sendRequest\<close>: to
  the \<open>mailchimpActionUrl\<close> property, with method "POST", data type "jsonp", callback
  parameter "c", and the body "EMAIL=" followed by the address exactly as it was read from
  the email input. The address is not URL-encoded.
\<close>

theorem signup_request_raw_address:
  "\<exists>out. signup c email = Inr out \<and>
     requests out = [\<lparr> url = mailchimpActionUrl (properties (props c)),
                        data = js ''EMAIL='' @ email,
                        headers = [],
                        dataType = js ''jsonp'',
                        jsonp = js ''c'',
                        http_method = js ''POST'' \<rparr>]"
  by (simp add: signup_total)

theorem signup_request_raw_address_witness:
  "\<exists>out. signup (constructor (defaultProps id (js ''mailchimpSignup'') (Some ())
                    (stepContext (js ''newsletter'') (JBoolean False))))
            (js ''user@example.com'') = (Inr out :: error + (unit, unit) outcome) \<and>
     map data (requests out) = [js ''EMAIL=user@example.com'']"
  using signup_request_raw_address
    [of "constructor (defaultProps id (js ''mailchimpSignup'') (Some ())
           (stepContext (js ''newsletter'') (JBoolean False)))"
        "js ''user@example.com''"]
  by (auto simp: js_def)

text \<open>
  The body for the address "user+news@example.com" is "EMAIL=user+news@example.com", while
  the URL-encoded address is "user%2Bnews%40example.com".
\<close>

theorem signup_request_not_urlencoded:
  "map_sum id requests
     (signup (constructor (defaultProps id (js ''mailchimpSignup'') (Some ())
                (stepContext (js ''newsletter'') (JBoolean False))))
        (js ''user+news@example.com'') :: error + (unit, unit) outcome)
   = Inr [\<lparr> url = None, data = js ''EMAIL=user+news@example.com'', headers = [],
             dataType = js ''jsonp'', jsonp = js ''c'', http_method = js ''POST'' \<rparr>]
   \<and> urlencode_spec (js ''user+news@example.com'') = Some (js ''user%2Bnews%40example.com'')
   \<and> js ''EMAIL=user+news@example.com'' \<noteq> js ''EMAIL='' @ js ''user%2Bnews%40example.com''"
proof -
  have a: "urlencode_spec (js ''user+news@example.com'') = Some (js ''user%2Bnews%40example.com'')"
    by (simp add: js_def isUnreserved_def hexDigit_def)
  have b: "js ''EMAIL=user+news@example.com'' \<noteq> js ''EMAIL='' @ js ''user%2Bnews%40example.com''"
    by (simp add: js_def)
  have c: "js ''EMAIL='' @ js ''user+news@example.com'' = js ''EMAIL=user+news@example.com''"
    by (simp add: js_def)
  show ?thesis
    using a b c by (simp add: signup_total constructor_def defaultProps_def)
qed

section \<open>The status paragraph\<close>

text \<open>
  C10. Whenever \<open>render\<close> does not skip, its output has exactly one paragraph with
  \<open>aria-live="assertive"\<close>: the one \<open>getSignupMessage\<close> returns. It has the success style
  exactly when \<open>successfulSignup\<close> is truthy and the error style otherwise, and its only
  child is the message, which is nothing while the message is undefined.
\<close>

theorem render_status_paragraph:
  assumes "\<not> skipRendering c"
  shows "\<exists>tree. fst (render c) = Some tree
           \<and> assertiveParagraphs tree = [getSignupMessage c]
           \<and> getSignupMessage c =
               Element ''p''
                 [(''className'',
                   AttrString (if truthy (successfulSignup (state c))
                               then js ''yoast-wizard-mailchimp-message-success''
                               else js ''yoast-wizard-mailchimp-message-error'')),
                  (''aria-live'', AttrString (js ''assertive''))]
                 [child (message (state c))]"
  using render_paragraphs [OF assms] getSignupMessage_paragraph [of c] by simp

theorem render_status_paragraph_witness:
  "(\<exists>tree.
      fst (render (constructor (defaultProps id (js ''mailchimpSignup'') (Some ())
                                  (stepContext (js ''newsletter'') (JBoolean False)))))
        = Some tree
      \<and> assertiveParagraphs tree =
          [Element ''p''
             [(''className'', AttrString (js ''yoast-wizard-mailchimp-message-success'')),
              (''aria-live'', AttrString (js ''assertive''))]
             [Null]])
   \<and> (\<exists>tree.
      fst (render ((constructor (defaultProps id (js ''mailchimpSignup'') (Some ())
                                   (stepContext (js ''newsletter'') (JBoolean False))))
                     \<lparr> state := \<lparr> successfulSignup = JBoolean False, isLoading = False,
                                  message = Some (js ''Invalid email'') \<rparr> \<rparr>))
        = Some tree
      \<and> assertiveParagraphs tree =
          [Element ''p''
             [(''className'', AttrString (js ''yoast-wizard-mailchimp-message-error'')),
              (''aria-live'', AttrString (js ''assertive''))]
             [Text (js ''Invalid email'')]])"
proof -
  let ?idle = "constructor (defaultProps id (js ''mailchimpSignup'') (Some ())
                              (stepContext (js ''newsletter'') (JBoolean False))) :: unit component"
  let ?failed = "?idle \<lparr> state := \<lparr> successfulSignup = JBoolean False, isLoading = False,
                                     message = Some (js ''Invalid email'') \<rparr> \<rparr>"
  have ne: "js ''newsletter'' \<noteq> js ''success''"
    by (simp add: js_def)
  have a: "\<not> skipRendering ?idle"
    using ne by (simp add: skipRendering_def constructor_def defaultProps_def stepContext_def)
  then have b: "\<not> skipRendering ?failed"
    by simp
  have si: "state ?idle = \<lparr> successfulSignup = JObject \<lparr> hasSignup = False \<rparr>,
                             isLoading = False, message = None \<rparr>"
    by (simp add: constructor_def defaultProps_def)
  from render_status_paragraph [OF a]
  obtain t1 where t1: "fst (render ?idle) = Some t1"
      "assertiveParagraphs t1 = [getSignupMessage ?idle]"
    and g1: "getSignupMessage ?idle =
               Element ''p''
                 [(''className'',
                   AttrString (if truthy (successfulSignup (state ?idle))
                               then js ''yoast-wizard-mailchimp-message-success''
                               else js ''yoast-wizard-mailchimp-message-error'')),
                  (''aria-live'', AttrString (js ''assertive''))]
                 [child (message (state ?idle))]"
    by blast
  have "getSignupMessage ?idle =
          Element ''p''
             [(''className'', AttrString (js ''yoast-wizard-mailchimp-message-success'')),
              (''aria-live'', AttrString (js ''assertive''))]
             [Null]"
    using g1 unfolding si by (simp add: child_def)
  with t1
  have 1: "\<exists>tree. fst (render ?idle) = Some tree
      \<and> assertiveParagraphs tree =
          [Element ''p''
             [(''className'', AttrString (js ''yoast-wizard-mailchimp-message-success'')),
              (''aria-live'', AttrString (js ''assertive''))]
             [Null]]"
    by simp
  from render_status_paragraph [OF b]
  obtain t2 where t2: "fst (render ?failed) = Some t2"
      "assertiveParagraphs t2 = [getSignupMessage ?failed]"
    and g2: "getSignupMessage ?failed =
               Element ''p''
                 [(''className'',
                   AttrString (if truthy (successfulSignup (state ?failed))
                               then js ''yoast-wizard-mailchimp-message-success''
                               else js ''yoast-wizard-mailchimp-message-error'')),
                  (''aria-live'', AttrString (js ''assertive''))]
                 [child (message (state ?failed))]"
    by blast
  have "getSignupMessage ?failed =
          Element ''p''
             [(''className'', AttrString (js ''yoast-wizard-mailchimp-message-error'')),
              (''aria-live'', AttrString (js ''assertive''))]
             [Text (js ''Invalid email'')]"
    using g2 by (simp add: child_def)
  with t2
  have 2: "\<exists>tree. fst (render ?failed) = Some tree
      \<and> assertiveParagraphs tree =
          [Element ''p''
             [(''className'', AttrString (js ''yoast-wizard-mailchimp-message-error'')),
              (''aria-live'', AttrString (js ''assertive''))]
             [Text (js ''Invalid email'')]]"
    by simp
  from 1 2 show ?thesis
    by blast
qed

end
